theory Spec2Isabelle
  imports Complex_Main "HOL-Library.Product_Lexorder" "HOL-Library.Multiset"
begin

section \<open>The Peak class of PyMassSpec (pyms/Peak/Class.py)\<close>

text \<open>
  A shallow embedding of the class \<^verbatim>\<open>Peak\<close>. A peak is a record of its private
  attributes; a method that assigns to them takes the peak and returns the outcome
  (returned, or the exception raised) together with the peak as the method left it, so
  that the state at the moment of a \<^verbatim>\<open>raise\<close> is part of the model. A method that
  assigns nothing is a function of the peak into \<open>error + result\<close>.

  An \<^verbatim>\<open>int\<close> is an \<open>int\<close> and a finite \<^verbatim>\<open>float\<close> is the rational number it
  denotes (no NaN is modelled). Comparisons of numbers are exact, in Python as in the
  model. The subtraction of floats in \<^verbatim>\<open>null_mass\<close> is rounded to the nearest
  double, as Python rounds it (\<open>float_round\<close>); the quotient of \<^verbatim>\<open>make_UID\<close> is
  the exact one. A mass spectrum is held by value: the lists of a peak's spectrum are
  the peak's own.
\<close>

subsection \<open>Python values and exceptions\<close>

datatype error =
  TypeError | ValueError | IndexError | NameError | ZeroDivisionError | OverflowError

datatype outcome = Returned | Raised error

text \<open>
  Modelled from the spec: the class \<^verbatim>\<open>MassSpectrum\<close> (pyms.Spectrum) is not in the
  sources. It is a mass list and a parallel intensity list of numbers, both readable
  and assignable. The source annotates masses and intensities as \<^verbatim>\<open>float\<close>: the
  numbers of the two lists are floats, a list written with ints standing for the
  floats of the same values.
\<close>

record MassSpectrum =
  mass_list :: "rat list"
  mass_spec :: "rat list"

text \<open>
  The objects a caller can pass: \<^verbatim>\<open>None\<close>, numbers, ASCII strings, sequences
  (lists and tuples), dicts (in insertion order) and mass spectra.
\<close>

datatype pyval =
    PyNone
  | PyInt int
  | PyFloat rat
  | PyStr string
  | PyList "pyval list"
  | PyDict "(pyval \<times> pyval) list"
  | PyMS MassSpectrum

text \<open>\<^verbatim>\<open>isinstance(v, (int, float))\<close>, \<^verbatim>\<open>isinstance(v, int)\<close> and
  \<^verbatim>\<open>isinstance(v, MassSpectrum)\<close>.\<close>

fun is_number :: "pyval \<Rightarrow> bool" where
  "is_number (PyInt i) = True"
| "is_number (PyFloat q) = True"
| "is_number v = False"

fun is_int :: "pyval \<Rightarrow> bool" where
  "is_int (PyInt i) = True"
| "is_int v = False"

fun is_MassSpectrum :: "pyval \<Rightarrow> bool" where
  "is_MassSpectrum (PyMS s) = True"
| "is_MassSpectrum v = False"

text \<open>The value of a number (0 for the objects that are not numbers; every use is
  behind an \<open>is_number\<close> check).\<close>

fun num_of :: "pyval \<Rightarrow> rat" where
  "num_of (PyInt i) = of_int i"
| "num_of (PyFloat q) = q"
| "num_of v = 0"

fun int_of :: "pyval \<Rightarrow> int" where
  "int_of (PyInt i) = i"
| "int_of v = 0"

text \<open>Truth value of an object in a condition. A mass spectrum has the length of its
  mass list; the constructor's check does not depend on it.\<close>

fun py_truthy :: "pyval \<Rightarrow> bool" where
  "py_truthy PyNone = False"
| "py_truthy (PyInt i) = (i \<noteq> 0)"
| "py_truthy (PyFloat q) = (q \<noteq> 0)"
| "py_truthy (PyStr s) = (s \<noteq> [])"
| "py_truthy (PyList xs) = (xs \<noteq> [])"
| "py_truthy (PyDict kvs) = (kvs \<noteq> [])"
| "py_truthy (PyMS s) = (mass_list s \<noteq> [])"

text \<open>\<^verbatim>\<open>a == b\<close> on dictionary keys: numbers compare by value.\<close>

definition py_eq :: "pyval \<Rightarrow> pyval \<Rightarrow> bool" where
  "py_eq a b = (if is_number a \<and> is_number b then num_of a = num_of b else a = b)"

text \<open>\<^verbatim>\<open>d[k] = v\<close> on a dict: the value of an equal key is replaced where it
  stands, a new key is appended.\<close>

fun dict_setitem :: "(pyval \<times> pyval) list \<Rightarrow> pyval \<Rightarrow> pyval \<Rightarrow> (pyval \<times> pyval) list" where
  "dict_setitem [] k v = [(k, v)]"
| "dict_setitem ((k', v') # kvs) k v =
     (if py_eq k' k then (k', v) # kvs else (k', v') # dict_setitem kvs k v)"

text \<open>\<^verbatim>\<open>min(xs)\<close> and \<^verbatim>\<open>max(xs)\<close>: a ValueError on the empty list.\<close>

definition py_min :: "rat list \<Rightarrow> error + rat" where
  "py_min xs = (case xs of [] \<Rightarrow> Inl ValueError | x # rest \<Rightarrow> Inr (fold min rest x))"

definition py_max :: "rat list \<Rightarrow> error + rat" where
  "py_max xs = (case xs of [] \<Rightarrow> Inl ValueError | x # rest \<Rightarrow> Inr (fold max rest x))"

subsection \<open>Conversion to int and number formatting\<close>

text \<open>\<^verbatim>\<open>int(x)\<close> on a number truncates towards zero.\<close>

definition int_of_rat :: "rat \<Rightarrow> int" where
  "int_of_rat q = (if q < 0 then - \<lfloor>- q\<rfloor> else \<lfloor>q\<rfloor>)"

text \<open>\<^verbatim>\<open>int(s)\<close> on a string reads a decimal literal: whitespace around it is
  dropped, a sign may lead, and single underscores may stand between digits. Anything
  else, the empty string included, is a ValueError.\<close>

definition is_space :: "char \<Rightarrow> bool" where
  "is_space c = (c \<in> set [CHR '' '', CHR 0x09, CHR 0x0A, CHR 0x0B, CHR 0x0C, CHR 0x0D,
                            CHR 0x1C, CHR 0x1D, CHR 0x1E, CHR 0x1F])"

definition is_digit :: "char \<Rightarrow> bool" where
  "is_digit c = (c \<in> set ''0123456789'')"

definition digit_val :: "char \<Rightarrow> nat" where
  "digit_val c = of_char c - 48"

fun int_digits :: "nat \<Rightarrow> bool \<Rightarrow> string \<Rightarrow> nat option" where
  "int_digits acc after_underscore [] = (if after_underscore then None else Some acc)"
| "int_digits acc after_underscore (c # cs) =
     (if is_digit c then int_digits (10 * acc + digit_val c) False cs
      else if c = CHR ''_'' \<and> \<not> after_underscore then int_digits acc True cs
      else None)"

definition int_literal :: "string \<Rightarrow> int option" where
  "int_literal s =
     (let t = rev (dropWhile is_space (rev (dropWhile is_space s)));
          neg = (case t of [] \<Rightarrow> False | c # cs \<Rightarrow> c = CHR ''-'');
          u = (case t of [] \<Rightarrow> [] | c # cs \<Rightarrow> if c = CHR ''-'' \<or> c = CHR ''+'' then cs else t)
      in case u of
           [] \<Rightarrow> None
         | d # ds \<Rightarrow>
             if is_digit d
             then map_option (\<lambda>n. if neg then - int n else int n) (int_digits (digit_val d) False ds)
             else None)"

fun py_int :: "pyval \<Rightarrow> error + int" where
  "py_int (PyInt i) = Inr i"
| "py_int (PyFloat q) = Inr (int_of_rat q)"
| "py_int (PyStr s) = (case int_literal s of None \<Rightarrow> Inl ValueError | Some i \<Rightarrow> Inr i)"
| "py_int v = Inl TypeError"

text \<open>The format \<^verbatim>\<open>{i:d}\<close> of an int.\<close>

definition digit_char :: "nat \<Rightarrow> char" where
  "digit_char d = ''0123456789'' ! d"

fun str_of_nat :: "nat \<Rightarrow> string" where
  "str_of_nat n =
     (if n < 10 then [digit_char n] else str_of_nat (n div 10) @ [digit_char (n mod 10)])"

declare str_of_nat.simps [simp del]

definition format_d :: "int \<Rightarrow> string" where
  "format_d i = (if i < 0 then CHR ''-'' # str_of_nat (nat (- i)) else str_of_nat (nat i))"

text \<open>The format \<^verbatim>\<open>{x:.2f}\<close> of a float: two decimals, the exact value rounded
  half to even, the sign of a negative value kept.\<close>

definition round_half_even :: "rat \<Rightarrow> int" where
  "round_half_even r =
     (let f = \<lfloor>r\<rfloor>; d = r - of_int f
      in if d < 1 / 2 then f else if 1 / 2 < d then f + 1 else if even f then f else f + 1)"

definition format_2f :: "rat \<Rightarrow> string" where
  "format_2f x =
     (let n = nat (round_half_even (\<bar>x\<bar> * 100))
      in (if x < 0 then ''-'' else '''') @ str_of_nat (n div 100) @ ''.''
           @ [digit_char (n mod 100 div 10), digit_char (n mod 10)])"

subsection \<open>Float arithmetic\<close>

text \<open>The number of binary digits of a natural number.\<close>

fun bit_length :: "nat \<Rightarrow> nat" where
  "bit_length n = (if n = 0 then 0 else Suc (bit_length (n div 2)))"

declare bit_length.simps [simp del]

text \<open>The binary exponent of a rational \<open>x \<noteq> 0\<close>: the \<open>e\<close> with
  \<open>2\<^sup>e \<le> \<bar>x\<bar> < 2\<^sup>e\<^sup>+\<^sup>1\<close>.\<close>

definition float_exponent :: "rat \<Rightarrow> int" where
  "float_exponent x =
     (if 1 \<le> \<bar>x\<bar> then int (bit_length (nat \<lfloor>\<bar>x\<bar>\<rfloor>)) - 1
      else - int (bit_length (nat \<lceil>1 / \<bar>x\<bar>\<rceil> - 1)))"

text \<open>The double (IEEE 754 binary64: 53 significant bits, least unit \<open>2\<^sup>-\<^sup>1\<^sup>0\<^sup>7\<^sup>4\<close>)
  nearest to a rational, ties to the even significand; \<open>None\<close> when the result is
  an infinity.\<close>

definition float_round :: "rat \<Rightarrow> rat option" where
  "float_round x =
     (if x = 0 then Some 0
      else
        let u = max (float_exponent x - 52) (- 1074);
            r = (if 0 \<le> u then of_int (round_half_even (x / 2 ^ nat u)) * 2 ^ nat u
                 else of_int (round_half_even (x * 2 ^ nat (- u))) / 2 ^ nat (- u))
        in if 2 ^ 1024 \<le> \<bar>r\<bar> then None else Some r)"

text \<open>The float operand that \<^verbatim>\<open>x - mass\<close> makes of \<^verbatim>\<open>mass\<close> when \<^verbatim>\<open>x\<close>
  is a float: a float is taken as it is, an int is converted to the nearest double,
  with an OverflowError when it is too large.\<close>

fun py_float :: "pyval \<Rightarrow> error + rat" where
  "py_float (PyFloat q) = Inr q"
| "py_float (PyInt i) =
     (case float_round (of_int i) of None \<Rightarrow> Inl OverflowError | Some q \<Rightarrow> Inr q)"
| "py_float v = Inl TypeError"

subsection \<open>The peak and its unique ID\<close>

record Peak =
  is_outlier :: bool
  rt :: rat
  pt_bounds :: "(int \<times> int \<times> int) option"
  area :: pyval
  ion_areas :: "(pyval \<times> pyval) list"
  mass_spectrum :: "MassSpectrum option"
  ic_mass :: pyval
  UID :: string

text \<open>The loop of \<^verbatim>\<open>make_UID\<close> over \<^verbatim>\<open>range(len(mass_spec))\<close>: the state is
  \<open>(best, best_ii, best2_ii)\<close>, \<open>ii\<close> the index of the head of the list.\<close>

fun make_UID_scan :: "rat list \<Rightarrow> nat \<Rightarrow> rat \<times> nat \<times> nat \<Rightarrow> rat \<times> nat \<times> nat" where
  "make_UID_scan [] ii acc = acc"
| "make_UID_scan (x # xs) ii (best, best_ii, best2_ii) =
     make_UID_scan xs (Suc ii)
       (if best < x then (x, ii, best_ii) else (best, best_ii, best2_ii))"

definition make_UID :: "Peak \<Rightarrow> outcome \<times> Peak" where
  "make_UID p =
     (case mass_spectrum p of
        Some ms \<Rightarrow>
          (case make_UID_scan (mass_spec ms) 0 (0, 0, 0) of
             (best, best_ii, best2_ii) \<Rightarrow>
               if length (mass_spec ms) \<le> best2_ii then (Raised IndexError, p)
               else if best = 0 then (Raised ZeroDivisionError, p)
               else
                 let ratio = int_of_rat (100 * (mass_spec ms ! best2_ii) / best)
                 in if length (mass_list ms) \<le> best_ii then (Raised IndexError, p)
                    else if length (mass_list ms) \<le> best2_ii then (Raised IndexError, p)
                    else (Returned,
                      p\<lparr>UID := format_d (int_of_rat (mass_list ms ! best_ii)) @ ''-''
                        @ format_d (int_of_rat (mass_list ms ! best2_ii)) @ ''-''
                        @ format_d ratio @ ''-'' @ format_2f (rt p)\<rparr>))
      | None \<Rightarrow>
          if ic_mass p \<noteq> PyNone
          then (case py_int (ic_mass p) of
                  Inl e \<Rightarrow> (Raised e, p)
                | Inr i \<Rightarrow> (Returned, p\<lparr>UID := format_d i @ ''-'' @ format_2f (rt p)\<rparr>))
          else (Returned, p\<lparr>UID := format_2f (rt p)\<rparr>))"

subsection \<open>Construction\<close>

text \<open>\<^verbatim>\<open>Peak.__init__(rt, ms, minutes, outlier)\<close>. The object exists only when
  the constructor returns. The UID attribute does not exist before \<^verbatim>\<open>make_UID\<close>
  has set it; the empty string stands for it until then.\<close>

definition Peak_init :: "pyval \<Rightarrow> pyval \<Rightarrow> bool \<Rightarrow> bool \<Rightarrow> error + Peak" where
  "Peak_init rt_arg ms minutes outlier =
     (if \<not> is_number rt_arg then Inl TypeError
      else if py_truthy ms \<and> \<not> is_MassSpectrum ms \<and> \<not> is_number ms then Inl TypeError
      else
        let r = (if minutes then num_of rt_arg * 60 else num_of rt_arg);
            p = \<lparr>is_outlier = outlier, rt = r, pt_bounds = None, area = PyNone,
                 ion_areas = [],
                 mass_spectrum = (case ms of PyMS s \<Rightarrow> Some s | _ \<Rightarrow> None),
                 ic_mass = (case ms of PyMS s \<Rightarrow> PyNone | _ \<Rightarrow> ms),
                 UID = ''''\<rparr>
        in case make_UID p of
             (Returned, p') \<Rightarrow> Inr p'
           | (Raised e, p') \<Rightarrow> Inl e)"

subsection \<open>Setters\<close>

definition area_setter :: "pyval \<Rightarrow> Peak \<Rightarrow> outcome \<times> Peak" where
  "area_setter v p =
     (if \<not> is_number v then (Raised TypeError, p)
      else if num_of v \<le> 0 then (Raised ValueError, p)
      else (Returned, p\<lparr>area := v\<rparr>))"

text \<open>
  Modelled from the spec: \<^verbatim>\<open>is_sequence\<close> (pyms.Utils.Utils) is not in the sources;
  it holds of the ordered sequences (lists and tuples), not of strings.
\<close>

fun is_sequence :: "pyval \<Rightarrow> bool" where
  "is_sequence (PyList xs) = True"
| "is_sequence v = False"

fun items_of :: "pyval \<Rightarrow> pyval list" where
  "items_of (PyList xs) = xs"
| "items_of v = []"

definition bounds_setter :: "pyval \<Rightarrow> Peak \<Rightarrow> outcome \<times> Peak" where
  "bounds_setter v p =
     (if \<not> is_sequence v then (Raised TypeError, p)
      else if length (items_of v) \<noteq> 3 then (Raised ValueError, p)
      else if \<not> list_all is_int (items_of v) then (Raised TypeError, p)
      else (Returned,
        p\<lparr>pt_bounds := Some (int_of (items_of v ! 0), int_of (items_of v ! 1),
                              int_of (items_of v ! 2))\<rparr>))"

definition set_bounds :: "pyval \<Rightarrow> pyval \<Rightarrow> pyval \<Rightarrow> Peak \<Rightarrow> outcome \<times> Peak" where
  "set_bounds left apex right p = bounds_setter (PyList [left, apex, right]) p"

definition ic_mass_setter :: "pyval \<Rightarrow> Peak \<Rightarrow> outcome \<times> Peak" where
  "ic_mass_setter v p =
     (if \<not> is_number v then (Raised TypeError, p)
      else make_UID (p\<lparr>ic_mass := v, mass_spectrum := None\<rparr>))"

text \<open>The \<^verbatim>\<open>ion_areas\<close> setter: \<^verbatim>\<open>list(value.keys())[0]\<close> is evaluated for every
  dict, before its type is looked at.\<close>

definition ion_areas_setter :: "pyval \<Rightarrow> Peak \<Rightarrow> outcome \<times> Peak" where
  "ion_areas_setter v p =
     (case v of
        PyDict kvs \<Rightarrow>
          (case kvs of
             [] \<Rightarrow> (Raised IndexError, p)
           | kv # rest \<Rightarrow>
               if is_number (fst kv) then (Returned, p\<lparr>ion_areas := kvs\<rparr>)
               else (Raised TypeError, p))
      | _ \<Rightarrow> (Raised TypeError, p))"

definition mass_spectrum_setter :: "pyval \<Rightarrow> Peak \<Rightarrow> outcome \<times> Peak" where
  "mass_spectrum_setter v p =
     (case v of
        PyMS s \<Rightarrow> make_UID (p\<lparr>mass_spectrum := Some s, ic_mass := PyNone\<rparr>)
      | _ \<Rightarrow> (Raised TypeError, p))"

definition set_ion_area :: "pyval \<Rightarrow> pyval \<Rightarrow> Peak \<Rightarrow> outcome \<times> Peak" where
  "set_ion_area ion a p =
     (if \<not> is_int ion then (Raised TypeError, p)
      else if \<not> is_number a then (Raised TypeError, p)
      else (Returned, p\<lparr>ion_areas := dict_setitem (ion_areas p) ion a\<rparr>))"

subsection \<open>Cropping and nulling the mass spectrum\<close>

text \<open>The loop of \<^verbatim>\<open>crop_mass\<close> over \<^verbatim>\<open>range(len(mass_list))\<close>: the state is
  the two new lists; reading \<^verbatim>\<open>mass_spec[ii]\<close> past the end of the intensity list
  is an IndexError.\<close>

fun crop_mass_loop ::
  "rat \<Rightarrow> rat \<Rightarrow> rat list \<Rightarrow> rat list \<Rightarrow> nat \<Rightarrow> rat list \<times> rat list
     \<Rightarrow> error + (rat list \<times> rat list)" where
  "crop_mass_loop lo hi [] spec ii acc = Inr acc"
| "crop_mass_loop lo hi (mass # rest) spec ii (new_mass_list, new_mass_spec) =
     (if lo \<le> mass \<and> mass \<le> hi
      then (if ii < length spec
            then crop_mass_loop lo hi rest spec (Suc ii)
                   (new_mass_list @ [mass], new_mass_spec @ [spec ! ii])
            else Inl IndexError)
      else crop_mass_loop lo hi rest spec (Suc ii) (new_mass_list, new_mass_spec))"

text \<open>\<^verbatim>\<open>crop_mass(mass_min, mass_max)\<close>. The two new lists are assigned to the
  spectrum before the length of the result is looked at. The warning for fewer than
  ten points is no exception and is not modelled.\<close>

definition crop_mass :: "pyval \<Rightarrow> pyval \<Rightarrow> Peak \<Rightarrow> outcome \<times> Peak" where
  "crop_mass mass_min mass_max p =
     (case mass_spectrum p of
        None \<Rightarrow> (Raised ValueError, p)
      | Some ms \<Rightarrow>
          if \<not> is_number mass_min \<or> \<not> is_number mass_max then (Raised TypeError, p)
          else if num_of mass_max \<le> num_of mass_min then (Raised ValueError, p)
          else
            (case py_min (mass_list ms) of
               Inl e \<Rightarrow> (Raised e, p)
             | Inr smallest \<Rightarrow>
                 if num_of mass_min < smallest then (Raised ValueError, p)
                 else
                   (case py_max (mass_list ms) of
                      Inl e \<Rightarrow> (Raised e, p)
                    | Inr largest \<Rightarrow>
                        if largest < num_of mass_max then (Raised ValueError, p)
                        else
                          (case crop_mass_loop (num_of mass_min) (num_of mass_max)
                                  (mass_list ms) (mass_spec ms) 0 ([], []) of
                             Inl e \<Rightarrow> (Raised e, p)
                           | Inr (new_mass_list, new_mass_spec) \<Rightarrow>
                               let p' = p\<lparr>mass_spectrum :=
                                          Some (ms\<lparr>mass_list := new_mass_list,
                                                   mass_spec := new_mass_spec\<rparr>)\<rparr>
                               in if length new_mass_list = 0 then (Raised ValueError, p')
                                  else make_UID p'))))"

text \<open>The loop of \<^verbatim>\<open>null_mass\<close> over \<^verbatim>\<open>range(len(mass_list))\<close>: the state is
  \<open>(best, ix)\<close>, and \<open>mass\<close> is the float operand of the subtraction. The
  difference \<^verbatim>\<open>mass_list[ii] - mass\<close> is a float subtraction, rounded to the nearest
  double; when it is an infinity, \<^verbatim>\<open>tmp < best\<close> is false.\<close>

fun null_mass_scan :: "rat \<Rightarrow> rat list \<Rightarrow> nat \<Rightarrow> rat \<times> nat \<Rightarrow> rat \<times> nat" where
  "null_mass_scan mass [] ii acc = acc"
| "null_mass_scan mass (m # rest) ii (best, ix) =
     null_mass_scan mass rest (Suc ii)
       (case float_round (m - mass) of
          None \<Rightarrow> (best, ix)
        | Some difference \<Rightarrow>
            let tmp = \<bar>difference\<bar>
            in if tmp < best then (tmp, ii) else (best, ix))"

text \<open>\<^verbatim>\<open>null_mass(mass)\<close>. The range check compares exactly. The loop runs at
  least once after it (the mass list is not empty there), so an int that cannot be
  converted for the subtraction raises before anything is assigned.\<close>

definition null_mass :: "pyval \<Rightarrow> Peak \<Rightarrow> outcome \<times> Peak" where
  "null_mass mass p =
     (case mass_spectrum p of
        None \<Rightarrow> (Raised NameError, p)
      | Some ms \<Rightarrow>
          if \<not> is_number mass then (Raised TypeError, p)
          else
            (case py_min (mass_list ms) of
               Inl e \<Rightarrow> (Raised e, p)
             | Inr smallest \<Rightarrow>
                 (case py_max (mass_list ms) of
                    Inl e \<Rightarrow> (Raised e, p)
                  | Inr largest \<Rightarrow>
                      if num_of mass < smallest \<or> largest < num_of mass
                      then (Raised IndexError, p)
                      else
                        (case py_float mass of
                           Inl e \<Rightarrow> (Raised e, p)
                         | Inr target \<Rightarrow>
                             (case null_mass_scan target (mass_list ms) 0 (largest, 0) of
                                (best, ix) \<Rightarrow>
                                  if ix < length (mass_spec ms)
                                  then make_UID
                                         (p\<lparr>mass_spectrum :=
                                              Some (ms\<lparr>mass_spec := (mass_spec ms)[ix := 0]\<rparr>)\<rparr>)
                                  else (Raised IndexError, p))))))"

subsection \<open>The mass spectrum from an intensity matrix\<close>

text \<open>
  Modelled from the spec: the class \<^verbatim>\<open>IntensityMatrix\<close> (pyms.IntensityMatrix) is
  not in the sources. The peak uses its two lookups, the index at a time and the mass
  spectrum at an index; either may raise.
\<close>

record IntensityMatrix =
  get_index_at_time :: "rat \<Rightarrow> error + int"
  get_ms_at_index :: "int \<Rightarrow> error + MassSpectrum"

text \<open>\<^verbatim>\<open>find_mass_spectrum(data, from_bounds)\<close>: the first argument is \<open>Some\<close>
  intensity matrix, or \<open>None\<close> for an object of any other class; the second is the
  truth value of \<^verbatim>\<open>from_bounds\<close>.\<close>

definition find_mass_spectrum :: "IntensityMatrix option \<Rightarrow> bool \<Rightarrow> Peak \<Rightarrow> outcome \<times> Peak" where
  "find_mass_spectrum matrix from_bounds p =
     (case matrix of
        None \<Rightarrow> (Raised TypeError, p)
      | Some im \<Rightarrow>
          (case (if from_bounds
                 then (case pt_bounds p of
                         None \<Rightarrow> Inl NameError
                       | Some (left, apex, right) \<Rightarrow> Inr apex)
                 else get_index_at_time im (rt p)) of
             Inl e \<Rightarrow> (Raised e, p)
           | Inr pt_apex \<Rightarrow>
               (case get_ms_at_index im pt_apex of
                  Inl e \<Rightarrow> (Raised e, p)
                | Inr ms \<Rightarrow> make_UID (p\<lparr>mass_spectrum := Some ms, ic_mass := PyNone\<rparr>))))"

subsection \<open>Queries on the mass spectrum\<close>

text \<open>The loop of \<^verbatim>\<open>get_third_highest_mz\<close> over \<^verbatim>\<open>enumerate(mass_spec)\<close>: the
  state is \<open>(best, best_ii, best2_ii, best3_ii)\<close>.\<close>

fun third_highest_scan ::
  "rat list \<Rightarrow> nat \<Rightarrow> rat \<times> nat \<times> nat \<times> nat \<Rightarrow> rat \<times> nat \<times> nat \<times> nat" where
  "third_highest_scan [] ii acc = acc"
| "third_highest_scan (intensity # rest) ii (best, best_ii, best2_ii, best3_ii) =
     third_highest_scan rest (Suc ii)
       (if best < intensity then (intensity, ii, best_ii, best2_ii)
        else (best, best_ii, best2_ii, best3_ii))"

definition get_third_highest_mz :: "Peak \<Rightarrow> error + int option" where
  "get_third_highest_mz p =
     (case mass_spectrum p of
        Some ms \<Rightarrow>
          (case third_highest_scan (mass_spec ms) 0 (0, 0, 0, 0) of
             (best, best_ii, best2_ii, best3_ii) \<Rightarrow>
               if best3_ii < length (mass_list ms)
               then Inr (Some (int_of_rat (mass_list ms ! best3_ii)))
               else Inl IndexError)
      | None \<Rightarrow> Inr None)"

text \<open>The slice \<^verbatim>\<open>xs[-n:]\<close>: a negative start counts from the end and stops at
  the first element, a start past the end gives the empty list.\<close>

definition slice_from_neg :: "int \<Rightarrow> 'a list \<Rightarrow> 'a list" where
  "slice_from_neg n xs =
     (let len = int (length xs);
          start = - n;
          start' = (if start < 0 then (if start + len < 0 then 0 else start + len)
                    else (if len < start then len else start))
      in drop (nat start') xs)"

text \<open>\<^verbatim>\<open>top_ions(num_ions)\<close>: \<^verbatim>\<open>sorted\<close> orders the (intensity, mass) tuples
  lexicographically, as the order on pairs does.\<close>

definition top_ions :: "pyval \<Rightarrow> Peak \<Rightarrow> error + rat list" where
  "top_ions num_ions p =
     (if \<not> is_int num_ions then Inl TypeError
      else
        (case mass_spectrum p of
           None \<Rightarrow> Inl ValueError
         | Some ms \<Rightarrow>
             let intensity_list = mass_spec ms;
                 mass_list' = mass_list ms;
                 sorted_ic = sort (zip intensity_list mass_list');
                 top_ic = slice_from_neg (int_of num_ions) sorted_ic
             in Inr (map snd top_ic)))"

subsection \<open>The peak as a state machine\<close>

text \<open>The public operations that assign to the peak or to its spectrum. The other
  public members (the property getters, \<^verbatim>\<open>get_int_of_ion\<close>, \<^verbatim>\<open>get_ion_area\<close>,
  \<^verbatim>\<open>get_ion_areas\<close>, \<^verbatim>\<open>get_third_highest_mz\<close>, \<^verbatim>\<open>top_ions\<close> and the equality
  test) assign nothing and leave the peak as it is.\<close>

datatype operation =
    Area_set pyval
  | Bounds_set pyval
  | Crop_mass pyval pyval
  | Ic_mass_set pyval
  | Ion_areas_set pyval
  | Make_UID
  | Mass_spectrum_set pyval
  | Null_mass pyval
  | Set_bounds pyval pyval pyval
  | Set_ion_area pyval pyval
  | Find_mass_spectrum "IntensityMatrix option" bool
  | Outlier_set bool

fun perform :: "operation \<Rightarrow> Peak \<Rightarrow> outcome \<times> Peak" where
  "perform (Area_set v) p = area_setter v p"
| "perform (Bounds_set v) p = bounds_setter v p"
| "perform (Crop_mass mass_min mass_max) p = crop_mass mass_min mass_max p"
| "perform (Ic_mass_set v) p = ic_mass_setter v p"
| "perform (Ion_areas_set v) p = ion_areas_setter v p"
| "perform Make_UID p = make_UID p"
| "perform (Mass_spectrum_set v) p = mass_spectrum_setter v p"
| "perform (Null_mass mass) p = null_mass mass p"
| "perform (Set_bounds left apex right) p = set_bounds left apex right p"
| "perform (Set_ion_area ion a) p = set_ion_area ion a p"
| "perform (Find_mass_spectrum matrix from_bounds) p = find_mass_spectrum matrix from_bounds p"
| "perform (Outlier_set b) p = (Returned, p\<lparr>is_outlier := b\<rparr>)"

text \<open>The states a peak can be in: as a constructor call that returned left it, or as
  an operation, returned or raised, left a peak that could be reached.\<close>

inductive reachable :: "Peak \<Rightarrow> bool" where
  constructed: "Peak_init rt_arg ms minutes outlier = Inr p \<Longrightarrow> reachable p"
| operated: "reachable p \<Longrightarrow> perform opn p = (res, p') \<Longrightarrow> reachable p'"

text \<open>At most one of the mass spectrum and the single ion mass is set.\<close>

definition exclusive :: "Peak \<Rightarrow> bool" where
  "exclusive p = (mass_spectrum p = None \<or> ic_mass p = PyNone)"

subsection \<open>Example peaks\<close>

text \<open>The spectrum of the spec's second scenario, and the peak
  \<^verbatim>\<open>Peak(rt=1.0, ms=MassSpectrum([50, 60, 70], [1, 5, 3]))\<close>.\<close>

definition scenario_spectrum :: MassSpectrum where
  "scenario_spectrum = \<lparr>mass_list = [50, 60, 70], mass_spec = [1, 5, 3]\<rparr>"

definition scenario_peak :: Peak where
  "scenario_peak =
     \<lparr>is_outlier = False, rt = 1, pt_bounds = None, area = PyNone, ion_areas = [],
      mass_spectrum = Some scenario_spectrum, ic_mass = PyNone, UID = ''60-50-20-1.00''\<rparr>"

text \<open>The same masses with falling intensities, and the peak
  \<^verbatim>\<open>Peak(rt=1.0, ms=MassSpectrum([50, 60, 70], [5, 3, 1]))\<close>.\<close>

definition falling_spectrum :: MassSpectrum where
  "falling_spectrum = \<lparr>mass_list = [50, 60, 70], mass_spec = [5, 3, 1]\<rparr>"

definition falling_peak :: Peak where
  "falling_peak =
     \<lparr>is_outlier = False, rt = 1, pt_bounds = None, area = PyNone, ion_areas = [],
      mass_spectrum = Some falling_spectrum, ic_mass = PyNone, UID = ''50-50-100-1.00''\<rparr>"

text \<open>The peak \<^verbatim>\<open>Peak(rt=1.5, ms=100, minutes=True)\<close> of the spec's first
  scenario.\<close>

definition single_ion_peak :: Peak where
  "single_ion_peak =
     \<lparr>is_outlier = False, rt = 90, pt_bounds = None, area = PyNone, ion_areas = [],
      mass_spectrum = None, ic_mass = PyInt 100, UID = ''100-90.00''\<rparr>"

text \<open>A peak whose spectrum has no positive intensity. The constructor raises on
  such a spectrum; the state is reached from \<open>scenario_peak\<close> by nulling its
  three masses (the third call raises once the spectrum is all zero).\<close>

definition zero_peak :: Peak where
  "zero_peak =
     \<lparr>is_outlier = False, rt = 1, pt_bounds = None, area = PyNone, ion_areas = [],
      mass_spectrum = Some \<lparr>mass_list = [50, 60, 70], mass_spec = [0, 0, 0]\<rparr>,
      ic_mass = PyNone, UID = ''70-50-0-1.00''\<rparr>"

text \<open>A spectrum with a negative mass, and the peak
  \<^verbatim>\<open>Peak(rt=1.0, ms=MassSpectrum([-1, 0], [1, 5]))\<close>.\<close>

definition negative_mass_peak :: Peak where
  "negative_mass_peak =
     \<lparr>is_outlier = False, rt = 1, pt_bounds = None, area = PyNone, ion_areas = [],
      mass_spectrum = Some \<lparr>mass_list = [- 1, 0], mass_spec = [1, 5]\<rparr>,
      ic_mass = PyNone, UID = ''0--1-20-1.00''\<rparr>"

text \<open>The four validation checks of \<^verbatim>\<open>crop_mass\<close> on a peak with a mass
  spectrum: both bounds are numbers, the lower is below the upper, and both lie within
  the masses of the (non-empty) mass list.\<close>

definition crop_mass_accepts :: "pyval \<Rightarrow> pyval \<Rightarrow> MassSpectrum \<Rightarrow> bool" where
  "crop_mass_accepts mass_min mass_max ms =
     (is_number mass_min \<and> is_number mass_max \<and> num_of mass_min < num_of mass_max \<and>
      mass_list ms \<noteq> [] \<and> Min (set (mass_list ms)) \<le> num_of mass_min \<and>
      num_of mass_max \<le> Max (set (mass_list ms)))"

section \<open>Properties\<close>

subsection \<open>Evaluation on concrete peaks\<close>

text \<open>The equations that unfold the model on a concrete input.\<close>

lemmas peak_eval = Peak_init_def make_UID_def Let_def format_d_def format_2f_def
  round_half_even_def int_of_rat_def digit_char_def str_of_nat.simps
  float_round_def float_exponent_def bit_length.simps
  crop_mass_def null_mass_def py_min_def py_max_def

lemmas example_defs = scenario_peak_def scenario_spectrum_def falling_peak_def
  falling_spectrum_def single_ion_peak_def zero_peak_def negative_mass_peak_def

subsection \<open>The ion areas setter on the empty dict\<close>

text \<open>C10: assigning the empty dict to \<^verbatim>\<open>ion_areas\<close> raises IndexError (the first
  element of the empty key list), neither a TypeError nor a successful assignment, and
  the peak, its stored ion areas included, is as before.\<close>

theorem ion_areas_setter_empty_dict:
  "ion_areas_setter (PyDict []) p = (Raised IndexError, p)"
  by (simp add: ion_areas_setter_def)

subsection \<open>What \<^verbatim>\<open>make_UID\<close> reads and writes\<close>

lemma make_UID_fields:
  "mass_spectrum (snd (make_UID p)) = mass_spectrum p"
  "ic_mass (snd (make_UID p)) = ic_mass p"
  "rt (snd (make_UID p)) = rt p"
  by (auto simp: make_UID_def Let_def split: option.splits prod.splits sum.splits)

lemma make_UID_exclusive: "exclusive (snd (make_UID p)) = exclusive p"
  by (simp add: exclusive_def make_UID_fields)

subsection \<open>Mutual exclusion of the mass spectrum and the single ion mass\<close>

lemma crop_mass_fields:
  "ic_mass (snd (crop_mass a b p)) = ic_mass p"
  "(mass_spectrum (snd (crop_mass a b p)) = None) = (mass_spectrum p = None)"
  by (auto simp: crop_mass_def Let_def make_UID_fields
      split: option.splits prod.splits sum.splits)

lemma null_mass_fields:
  "ic_mass (snd (null_mass a p)) = ic_mass p"
  "(mass_spectrum (snd (null_mass a p)) = None) = (mass_spectrum p = None)"
  by (auto simp: null_mass_def Let_def make_UID_fields
      split: option.splits prod.splits sum.splits)

lemma perform_exclusive: "exclusive p \<Longrightarrow> exclusive (snd (perform opn p))"
proof (cases opn)
  case (Crop_mass a b)
  assume "exclusive p"
  then show ?thesis using Crop_mass by (auto simp: exclusive_def crop_mass_fields)
next
  case (Null_mass a)
  assume "exclusive p"
  then show ?thesis using Null_mass by (auto simp: exclusive_def null_mass_fields)
next
  case (Find_mass_spectrum m b)
  assume "exclusive p"
  then show ?thesis using Find_mass_spectrum
    by (auto simp: exclusive_def find_mass_spectrum_def make_UID_fields
        split: option.splits sum.splits prod.splits)
qed (auto simp: exclusive_def area_setter_def bounds_setter_def set_bounds_def
      ic_mass_setter_def ion_areas_setter_def mass_spectrum_setter_def set_ion_area_def
      make_UID_fields split: pyval.splits list.splits)

lemma Peak_init_exclusive:
  assumes "Peak_init r ms minutes outlier = Inr p"
  shows "exclusive p"
proof -
  define q where "q = \<lparr>is_outlier = outlier,
     rt = (if minutes then num_of r * 60 else num_of r),
     pt_bounds = None, area = PyNone, ion_areas = [],
     mass_spectrum = (case ms of PyMS s \<Rightarrow> Some s | _ \<Rightarrow> None),
     ic_mass = (case ms of PyMS s \<Rightarrow> PyNone | _ \<Rightarrow> ms), UID = []\<rparr>"
  have "p = snd (make_UID q)" using assms
    by (auto simp: Peak_init_def Let_def q_def split: if_splits prod.splits outcome.splits)
  moreover have "exclusive q" by (cases ms) (simp_all add: exclusive_def q_def)
  ultimately show ?thesis by (simp add: make_UID_exclusive)
qed

text \<open>C3: in every state a peak can reach (after a constructor call that returned and
  after any sequence of public operations, returned or raised) at most one of the mass
  spectrum and the single ion mass is set; the \<^verbatim>\<open>ic_mass\<close> setter stores the mass
  and clears the spectrum, the \<^verbatim>\<open>mass_spectrum\<close> setter stores the spectrum and
  clears the mass.\<close>

theorem reachable_exclusive:
  "(reachable p \<longrightarrow> exclusive p) \<and>
   (is_number v \<longrightarrow>
      mass_spectrum (snd (ic_mass_setter v q)) = None \<and>
      ic_mass (snd (ic_mass_setter v q)) = v) \<and>
   mass_spectrum (snd (mass_spectrum_setter (PyMS s) q)) = Some s \<and>
   ic_mass (snd (mass_spectrum_setter (PyMS s) q)) = PyNone"
proof -
  have "reachable p \<Longrightarrow> exclusive p"
  proof (induction rule: reachable.induct)
    case (constructed rt_arg ms minutes outlier p)
    then show ?case by (rule Peak_init_exclusive)
  next
    case (operated p opn res p')
    then show ?case using perform_exclusive [of p opn] by simp
  qed
  then show ?thesis
    by (auto simp: ic_mass_setter_def mass_spectrum_setter_def make_UID_fields)
qed

theorem reachable_exclusive_witness:
  "reachable (scenario_peak\<lparr>mass_spectrum := Some \<lparr>mass_list = [], mass_spec = []\<rparr>\<rparr>) \<and>
   exclusive (scenario_peak\<lparr>mass_spectrum := Some \<lparr>mass_list = [], mass_spec = []\<rparr>\<rparr>) \<and>
   is_number (PyInt 100) \<and>
   mass_spectrum (snd (ic_mass_setter (PyInt 100) scenario_peak)) = None"
proof -
  have c: "Peak_init (PyFloat 1) (PyMS scenario_spectrum) False False = Inr scenario_peak"
    by (simp add: peak_eval example_defs)
  have s: "perform (Crop_mass (PyInt 52) (PyInt 58)) scenario_peak
           = (Raised ValueError,
              scenario_peak\<lparr>mass_spectrum := Some \<lparr>mass_list = [], mass_spec = []\<rparr>\<rparr>)"
    by (simp add: peak_eval example_defs)
  have r: "reachable (scenario_peak\<lparr>mass_spectrum := Some \<lparr>mass_list = [], mass_spec = []\<rparr>\<rparr>)"
    by (rule reachable.operated [OF reachable.constructed [OF c] s])
  show ?thesis
    using r reachable_exclusive
      [of "scenario_peak\<lparr>mass_spectrum := Some \<lparr>mass_list = [], mass_spec = []\<rparr>\<rparr>"
          "PyInt 100" scenario_peak]
    by simp
qed

subsection \<open>The scan of \<^verbatim>\<open>make_UID\<close> and division by zero\<close>


lemma fold_max_ge: "(b::rat) \<le> fold max xs b"
proof (induction xs arbitrary: b)
  case Nil
  show ?case by simp
next
  case (Cons a xs)
  have "b \<le> max a b" by simp
  also have "\<dots> \<le> fold max xs (max a b)" by (rule Cons.IH)
  finally show ?case by simp
qed

lemma fold_max_mem: "x \<in> set xs \<Longrightarrow> (x::rat) \<le> fold max xs b"
proof (induction xs arbitrary: b)
  case Nil then show ?case by simp
next
  case (Cons y ys)
  show ?case
  proof (cases "x = y")
    case True
    have "y \<le> max y b" by simp
    also have "\<dots> \<le> fold max ys (max y b)" by (rule fold_max_ge)
    finally show ?thesis using True by simp
  next
    case False
    then show ?thesis using Cons by simp
  qed
qed

lemma fold_max_cases: "fold max xs (b::rat) = b \<or> fold max xs b \<in> set xs"
proof (induction xs arbitrary: b)
  case Nil show ?case by simp
next
  case (Cons a xs)
  show ?case using Cons.IH [of "max a b"] by (auto simp: max_def)
qed




subsection \<open>The UID as a function of the state\<close>

text \<open>C7: \<^verbatim>\<open>make_UID\<close> is idempotent (a second call in a row gives the same
  outcome and the same peak, so the same UID); with a mass spectrum the outcome and the
  UID depend on the retention time and the spectrum only, without one on the retention
  time and the single ion mass only.\<close>

theorem make_UID_deterministic:
  "make_UID (snd (make_UID p)) = make_UID p \<and>
   (mass_spectrum p \<noteq> None \<and> mass_spectrum q = mass_spectrum p \<and> rt q = rt p \<longrightarrow>
      fst (make_UID q) = fst (make_UID p) \<and>
      (fst (make_UID p) = Returned \<longrightarrow> UID (snd (make_UID q)) = UID (snd (make_UID p)))) \<and>
   (mass_spectrum p = None \<and> mass_spectrum q = None \<and> ic_mass q = ic_mass p \<and> rt q = rt p \<longrightarrow>
      fst (make_UID q) = fst (make_UID p) \<and>
      (fst (make_UID p) = Returned \<longrightarrow> UID (snd (make_UID q)) = UID (snd (make_UID p))))"
  by (auto simp: make_UID_def Let_def split: option.splits prod.splits sum.splits)

theorem make_UID_deterministic_witness:
  "make_UID (snd (make_UID scenario_peak)) = make_UID scenario_peak \<and>
   fst (make_UID scenario_peak) = Returned \<and>
   UID (snd (make_UID (scenario_peak\<lparr>UID := ''stale'', ic_mass := PyInt 7, area := PyInt 3\<rparr>)))
     = UID (snd (make_UID scenario_peak)) \<and>
   fst (make_UID single_ion_peak) = Returned \<and>
   UID (snd (make_UID (single_ion_peak\<lparr>UID := ''stale'', is_outlier := True\<rparr>)))
     = UID (snd (make_UID single_ion_peak))"
proof -
  have r1: "fst (make_UID scenario_peak) = Returned"
    by (simp add: peak_eval example_defs)
  have r2: "fst (make_UID single_ion_peak) = Returned"
    by (simp add: peak_eval example_defs)
  show ?thesis
    using r1 r2
      make_UID_deterministic [of scenario_peak
        "scenario_peak\<lparr>UID := ''stale'', ic_mass := PyInt 7, area := PyInt 3\<rparr>"]
      make_UID_deterministic [of single_ion_peak
        "single_ion_peak\<lparr>UID := ''stale'', is_outlier := True\<rparr>"]
    by (simp add: scenario_peak_def single_ion_peak_def)
qed

subsection \<open>The ions of highest intensity\<close>

lemma slice_from_neg_pos:
  assumes "1 \<le> n"
  shows "slice_from_neg n xs = drop (length xs - nat n) xs"
proof (cases "int (length xs) < n")
  case True
  then have "length xs - nat n = 0" by arith
  moreover have "slice_from_neg n xs = drop 0 xs"
    using True assms by (simp add: slice_from_neg_def Let_def)
  ultimately show ?thesis by simp
next
  case False
  then have "nat (int (length xs) - n) = length xs - nat n" using assms by arith
  moreover have "slice_from_neg n xs = drop (nat (int (length xs) - n)) xs"
    using False assms by (simp add: slice_from_neg_def Let_def)
  ultimately show ?thesis by simp
qed

lemma top_ions_pos_eq:
  assumes "mass_spectrum p = Some ms" and "1 \<le> n"
  shows "top_ions (PyInt n) p
         = Inr (map snd (drop (length (sort (zip (mass_spec ms) (mass_list ms))) - nat n)
                           (sort (zip (mass_spec ms) (mass_list ms)))))"
  using assms by (simp only: top_ions_def Let_def slice_from_neg_pos is_int.simps int_of.simps
      option.case not_True_eq_False if_False)


lemma sorted_pairs_lex:
  "sorted (ps :: (rat \<times> rat) list) \<Longrightarrow>
     sorted_wrt (\<lambda>a b. fst a < fst b \<or> fst a = fst b \<and> snd a \<le> snd b) ps"
  by (erule sorted_wrt_mono_rel [rotated]) (auto simp: less_eq_prod_def)

text \<open>C6: for \<open>n \<ge> 1\<close>, \<^verbatim>\<open>top_ions(n)\<close> on a peak with a mass spectrum of \<open>k\<close>
  (intensity, mass) pairs returns the masses of the last \<open>min n k\<close> pairs of the
  pairs sorted ascending by intensity, ties by mass ascending, in that order (the
  lowest of them first); when \<open>n\<close> exceeds \<open>k\<close> these are all the pairs, and
  nothing is raised.\<close>

theorem top_ions_positive:
  assumes "mass_spectrum p = Some ms" and "1 \<le> n"
  shows "\<exists>rest top.
           sort (zip (mass_spec ms) (mass_list ms)) = rest @ top \<and>
           length top = min (nat n) (length (zip (mass_spec ms) (mass_list ms))) \<and>
           top_ions (PyInt n) p = Inr (map snd top) \<and>
           mset (rest @ top) = mset (zip (mass_spec ms) (mass_list ms)) \<and>
           sorted_wrt (\<lambda>a b. fst a < fst b \<or> fst a = fst b \<and> snd a \<le> snd b) (rest @ top) \<and>
           (int (length (zip (mass_spec ms) (mass_list ms))) < n \<longrightarrow> rest = [])"
proof -
  define pairs where "pairs = sort (zip (mass_spec ms) (mass_list ms))"
  define k where "k = length (zip (mass_spec ms) (mass_list ms))"
  have len: "length pairs = k" unfolding pairs_def k_def by (rule length_sort)
  define rest where "rest = take (k - nat n) pairs"
  define top where "top = drop (k - nat n) pairs"
  have split: "pairs = rest @ top" unfolding rest_def top_def by (rule append_take_drop_id [symmetric])
  have ltop: "length top = min (nat n) k"
    using assms(2) len unfolding top_def by auto
  have res: "top_ions (PyInt n) p = Inr (map snd top)"
    using top_ions_pos_eq [OF assms] len unfolding top_def pairs_def by (simp only:)
  have ms: "mset pairs = mset (zip (mass_spec ms) (mass_list ms))"
    unfolding pairs_def by (rule mset_sort)
  have "sorted pairs" unfolding pairs_def by (rule sorted_sort)
  then have so: "sorted_wrt (\<lambda>a b. fst a < fst b \<or> fst a = fst b \<and> snd a \<le> snd b) pairs"
    by (rule sorted_pairs_lex)
  have all: "int k < n \<longrightarrow> rest = []" unfolding rest_def by auto
  have "pairs = rest @ top \<and> length top = min (nat n) k \<and>
        top_ions (PyInt n) p = Inr (map snd top) \<and>
        mset (rest @ top) = mset (zip (mass_spec ms) (mass_list ms)) \<and>
        sorted_wrt (\<lambda>a b. fst a < fst b \<or> fst a = fst b \<and> snd a \<le> snd b) (rest @ top) \<and>
        (int k < n \<longrightarrow> rest = [])"
    using split ltop res ms so all by (simp only: simp_thms)
  then show ?thesis unfolding pairs_def k_def by (intro exI)
qed


theorem top_ions_positive_witness:
  "mass_spectrum scenario_peak = Some scenario_spectrum \<and>
   top_ions (PyInt 2) scenario_peak = Inr [70, 60] \<and>
   top_ions (PyInt 7) scenario_peak = Inr [50, 70, 60] \<and>
   (\<exists>rest top. sort (zip (mass_spec scenario_spectrum) (mass_list scenario_spectrum)) = rest @ top \<and>
      length top = 2 \<and> top_ions (PyInt 2) scenario_peak = Inr (map snd top))"
proof -
  have a: "mass_spectrum scenario_peak = Some scenario_spectrum"
    by (simp add: scenario_peak_def)
  have s: "sort (zip (mass_spec scenario_spectrum) (mass_list scenario_spectrum))
           = [(1, 50), (3, 70), (5, 60)]"
    by (simp add: scenario_spectrum_def)
  have t2: "top_ions (PyInt 2) scenario_peak = Inr [70, 60]"
    using top_ions_pos_eq [OF a, of 2] by (simp add: s)
  have t7: "top_ions (PyInt 7) scenario_peak = Inr [50, 70, 60]"
    using top_ions_pos_eq [OF a, of 7] by (simp add: s)
  have l: "length (zip (mass_spec scenario_spectrum) (mass_list scenario_spectrum)) = 3"
    by (simp add: scenario_spectrum_def)
  from top_ions_positive [OF a, of 2]
  obtain rest top where
    "sort (zip (mass_spec scenario_spectrum) (mass_list scenario_spectrum)) = rest @ top"
    "length top = min (nat 2) (length (zip (mass_spec scenario_spectrum) (mass_list scenario_spectrum)))"
    "top_ions (PyInt 2) scenario_peak = Inr (map snd top)"
    by auto
  then have "\<exists>rest top. sort (zip (mass_spec scenario_spectrum) (mass_list scenario_spectrum)) = rest @ top \<and>
      length top = 2 \<and> top_ions (PyInt 2) scenario_peak = Inr (map snd top)"
    unfolding l by auto
  then show ?thesis using a t2 t7 by (simp only: simp_thms)
qed

lemma slice_from_neg_zero: "slice_from_neg 0 xs = xs"
  by (simp add: slice_from_neg_def)

lemma top_ions_zero_eq:
  assumes "mass_spectrum p = Some ms"
  shows "top_ions (PyInt 0) p = Inr (map snd (sort (zip (mass_spec ms) (mass_list ms))))"
  using assms by (simp only: top_ions_def Let_def slice_from_neg_zero is_int.simps int_of.simps
      option.case not_True_eq_False if_False)

text \<open>C9: \<^verbatim>\<open>top_ions(0)\<close> on a peak with a mass spectrum returns the masses of
  all the (intensity, mass) pairs in ascending-intensity order: the slice
  \<^verbatim>\<open>sorted_ic[-0:]\<close> is the whole list. For lists of equal length the result is
  a permutation of the mass list, as long as it, and not empty when the spectrum is
  not.\<close>

theorem top_ions_zero:
  assumes "mass_spectrum p = Some ms"
  shows "\<exists>ions. top_ions (PyInt 0) p = Inr ions \<and>
           ions = map snd (sort (zip (mass_spec ms) (mass_list ms))) \<and>
           length ions = min (length (mass_spec ms)) (length (mass_list ms)) \<and>
           (length (mass_spec ms) = length (mass_list ms) \<longrightarrow>
              mset ions = mset (mass_list ms) \<and> length ions = length (mass_list ms) \<and>
              (mass_list ms \<noteq> [] \<longrightarrow> ions \<noteq> []))"
proof -
  define ions where "ions = map snd (sort (zip (mass_spec ms) (mass_list ms)))"
  have a: "top_ions (PyInt 0) p = Inr ions"
    unfolding ions_def by (rule top_ions_zero_eq [OF assms])
  have "length ions = length (zip (mass_spec ms) (mass_list ms))"
    unfolding ions_def by (simp only: length_map length_sort)
  then have b: "length ions = min (length (mass_spec ms)) (length (mass_list ms))"
    by (simp only: length_zip)
  have "mset ions = image_mset snd (mset (sort (zip (mass_spec ms) (mass_list ms))))"
    unfolding ions_def by (simp only: mset_map)
  also have "\<dots> = image_mset snd (mset (zip (mass_spec ms) (mass_list ms)))"
    by (simp only: mset_sort)
  also have "\<dots> = mset (map snd (zip (mass_spec ms) (mass_list ms)))"
    by (simp only: mset_map)
  finally have m: "mset ions = mset (map snd (zip (mass_spec ms) (mass_list ms)))" .
  have c: "mset ions = mset (mass_list ms) \<and> length ions = length (mass_list ms) \<and>
           (mass_list ms \<noteq> [] \<longrightarrow> ions \<noteq> [])"
    if eq: "length (mass_spec ms) = length (mass_list ms)"
  proof -
    have "map snd (zip (mass_spec ms) (mass_list ms)) = mass_list ms"
      using eq by (rule map_snd_zip)
    then have "mset ions = mset (mass_list ms)" using m by (simp only:)
    moreover have l: "length ions = length (mass_list ms)" using b eq by (simp only: min.idem)
    moreover have "mass_list ms \<noteq> [] \<longrightarrow> ions \<noteq> []" using l by auto
    ultimately show ?thesis by (simp only: simp_thms)
  qed
  have "top_ions (PyInt 0) p = Inr ions \<and>
        ions = map snd (sort (zip (mass_spec ms) (mass_list ms))) \<and>
        length ions = min (length (mass_spec ms)) (length (mass_list ms)) \<and>
        (length (mass_spec ms) = length (mass_list ms) \<longrightarrow>
           mset ions = mset (mass_list ms) \<and> length ions = length (mass_list ms) \<and>
           (mass_list ms \<noteq> [] \<longrightarrow> ions \<noteq> []))"
    using a b c ions_def by blast
  then show ?thesis by (rule exI)
qed

theorem top_ions_zero_witness:
  "mass_spectrum scenario_peak = Some scenario_spectrum \<and>
   top_ions (PyInt 0) scenario_peak = Inr [50, 70, 60] \<and>
   (\<exists>ions. top_ions (PyInt 0) scenario_peak = Inr ions \<and> length ions = 3)"
proof -
  have a: "mass_spectrum scenario_peak = Some scenario_spectrum"
    by (simp add: scenario_peak_def)
  have s: "sort (zip (mass_spec scenario_spectrum) (mass_list scenario_spectrum))
           = [(1, 50), (3, 70), (5, 60)]"
    by (simp add: scenario_spectrum_def)
  have t: "top_ions (PyInt 0) scenario_peak = Inr [50, 70, 60]"
    using top_ions_zero_eq [OF a] by (simp add: s)
  have l: "min (length (mass_spec scenario_spectrum)) (length (mass_list scenario_spectrum)) = 3"
    by (simp add: scenario_spectrum_def)
  from top_ions_zero [OF a]
  obtain ions where "top_ions (PyInt 0) scenario_peak = Inr ions"
    "length ions = min (length (mass_spec scenario_spectrum)) (length (mass_list scenario_spectrum))"
    by auto
  then have "\<exists>ions. top_ions (PyInt 0) scenario_peak = Inr ions \<and> length ions = 3"
    unfolding l by auto
  then show ?thesis using a t by (simp only: simp_thms)
qed

subsection \<open>The mass of third highest intensity\<close>

text \<open>C2: on the spectrum with masses 50, 60, 70 and intensities 5, 3, 1 the third
  highest intensity is 1, at mass 70; \<^verbatim>\<open>get_third_highest_mz\<close> returns 50, the mass
  of the highest intensity: the scan moves its three indices only when a new maximum
  appears, and here that happens once, at index 0.\<close>

theorem third_highest_falling:
  "get_third_highest_mz falling_peak = Inr (Some 50) \<and>
   zip (mass_list falling_spectrum) (mass_spec falling_spectrum) = [(50, 5), (60, 3), (70, 1)]"
  by (simp add: get_third_highest_mz_def int_of_rat_def example_defs)

subsection \<open>The constructor on an empty string\<close>

text \<open>C5: \<^verbatim>\<open>Peak(rt=1.0, ms="")\<close> raises ValueError, not TypeError: the empty
  string is false in the constructor's check, is stored as the single ion mass, and
  \<^verbatim>\<open>int("")\<close> fails in \<^verbatim>\<open>make_UID\<close>. The \<^verbatim>\<open>ic_mass\<close> setter raises TypeError
  on the same object. The first scenario of the spec,
  \<^verbatim>\<open>Peak(rt=1.5, ms=100, minutes=True)\<close>, gives the retention time 90, the single ion
  mass 100 and no mass spectrum.\<close>

theorem Peak_init_empty_string:
  "Peak_init (PyFloat 1) (PyStr []) False False = Inl ValueError \<and>
   fst (ic_mass_setter (PyStr []) p) = Raised TypeError \<and>
   Peak_init (PyFloat (3 / 2)) (PyInt 100) True False = Inr single_ion_peak"
  by (simp add: peak_eval int_literal_def ic_mass_setter_def single_ion_peak_def)

subsection \<open>Minimum and maximum of a mass list\<close>

lemma fold_min_le: "fold min xs (b::rat) \<le> b"
proof (induction xs arbitrary: b)
  case Nil
  show ?case by simp
next
  case (Cons a xs)
  have "fold min xs (min a b) \<le> min a b" by (rule Cons.IH)
  also have "\<dots> \<le> b" by simp
  finally show ?case by simp
qed

lemma fold_min_mem: "x \<in> set xs \<Longrightarrow> fold min xs b \<le> (x::rat)"
proof (induction xs arbitrary: b)
  case Nil then show ?case by simp
next
  case (Cons y ys)
  show ?case
  proof (cases "x = y")
    case True
    have "fold min ys (min y b) \<le> min y b" by (rule fold_min_le)
    also have "\<dots> \<le> y" by simp
    finally show ?thesis using True by simp
  next
    case False
    then show ?thesis using Cons by simp
  qed
qed

lemma fold_min_cases: "fold min xs (b::rat) = b \<or> fold min xs b \<in> set xs"
proof (induction xs arbitrary: b)
  case Nil show ?case by simp
next
  case (Cons a xs)
  show ?case using Cons.IH [of "min a b"] by (auto simp: min_def)
qed

lemma py_max_Max:
  assumes "xs \<noteq> []"
  shows "py_max xs = Inr (Max (set xs))"
proof -
  obtain x rest where xs: "xs = x # rest" using assms by (cases xs) auto
  have "Max (set (x # rest)) = fold max rest x"
  proof (rule Max_eqI)
    show "finite (set (x # rest))" by simp
    show "\<And>y. y \<in> set (x # rest) \<Longrightarrow> y \<le> fold max rest x"
      using fold_max_ge [of x rest] fold_max_mem [of _ rest x] by auto
    show "fold max rest x \<in> set (x # rest)" using fold_max_cases [of rest x] by auto
  qed
  then show ?thesis by (simp add: py_max_def xs)
qed

lemma py_min_Min:
  assumes "xs \<noteq> []"
  shows "py_min xs = Inr (Min (set xs))"
proof -
  obtain x rest where xs: "xs = x # rest" using assms by (cases xs) auto
  have "Min (set (x # rest)) = fold min rest x"
  proof (rule Min_eqI)
    show "finite (set (x # rest))" by simp
    show "\<And>y. y \<in> set (x # rest) \<Longrightarrow> fold min rest x \<le> y"
      using fold_min_le [of rest x] fold_min_mem [of _ rest x] by auto
    show "fold min rest x \<in> set (x # rest)" using fold_min_cases [of rest x] by auto
  qed
  then show ?thesis by (simp add: py_min_def xs)
qed

lemma py_min_Nil: "py_min [] = Inl ValueError"
  by (simp add: py_min_def)

subsection \<open>Cropping: the state when the result is empty\<close>

lemma crop_mass_loop_result:
  "crop_mass_loop lo hi masses spec ii (nl, ns) = Inr (nl', ns') \<Longrightarrow>
     nl' = nl @ filter (\<lambda>m. lo \<le> m \<and> m \<le> hi) masses \<and>
     (length nl = length ns \<longrightarrow> length nl' = length ns')"
proof (induction masses arbitrary: ii nl ns)
  case Nil
  then show ?case by simp
next
  case (Cons a masses)
  show ?case
  proof (cases "lo \<le> a \<and> a \<le> hi")
    case True
    with Cons.prems have rec:
      "crop_mass_loop lo hi masses spec (Suc ii) (nl @ [a], ns @ [spec ! ii]) = Inr (nl', ns')"
      by (auto split: if_splits)
    from Cons.IH [OF rec] True show ?thesis by auto
  next
    case False
    with Cons.prems have rec:
      "crop_mass_loop lo hi masses spec (Suc ii) (nl, ns) = Inr (nl', ns')"
      by (auto split: if_splits)
    from Cons.IH [OF rec] False show ?thesis by auto
  qed
qed

lemma crop_mass_loop_none:
  "filter (\<lambda>m. lo \<le> m \<and> m \<le> hi) masses = [] \<Longrightarrow>
     crop_mass_loop lo hi masses spec ii acc = Inr acc"
  by (induction masses arbitrary: ii) (cases acc; auto split: if_splits)+

lemma make_UID_no_ValueError:
  "mass_spectrum p = Some ms \<Longrightarrow> fst (make_UID p) \<noteq> Raised ValueError"
  by (auto simp: make_UID_def Let_def split: prod.splits)

text \<open>C1, as the claim states it, fails: \<^verbatim>\<open>crop_mass(52, 58)\<close> on the peak with
  masses 50, 60, 70 passes the four validation checks, raises ValueError for the empty
  result, and leaves the peak with an empty mass list and an empty intensity list.\<close>

theorem crop_mass_mutates_before_raise:
  "crop_mass_accepts (PyInt 52) (PyInt 58) scenario_spectrum \<and>
   crop_mass (PyInt 52) (PyInt 58) scenario_peak
     = (Raised ValueError,
        scenario_peak\<lparr>mass_spectrum := Some \<lparr>mass_list = [], mass_spec = []\<rparr>\<rparr>) \<and>
   mass_spectrum (scenario_peak\<lparr>mass_spectrum := Some \<lparr>mass_list = [], mass_spec = []\<rparr>\<rparr>)
     \<noteq> mass_spectrum scenario_peak"
  by (simp add: crop_mass_accepts_def peak_eval example_defs)

text \<open>C1, amended: when \<^verbatim>\<open>crop_mass\<close> raises ValueError on a peak with a mass
  spectrum, the UID is the one from before the call; if the arguments pass the four
  validation checks, no mass lies in the range and the mass list and the intensity list
  of the peak have both been replaced by the empty list (the new lists are assigned
  before the length of the result is looked at), every other attribute being as
  before; if they do not, the peak is unchanged. Conversely, arguments that pass the
  checks with no mass in the range give this ValueError and this state.\<close>

theorem crop_mass_value_error:
  assumes "mass_spectrum p = Some ms"
  shows "(crop_mass mass_min mass_max p = (Raised ValueError, p') \<longrightarrow>
            UID p' = UID p \<and>
            (if crop_mass_accepts mass_min mass_max ms
             then filter (\<lambda>m. num_of mass_min \<le> m \<and> m \<le> num_of mass_max) (mass_list ms) = [] \<and>
                  p' = p\<lparr>mass_spectrum := Some (ms\<lparr>mass_list := [], mass_spec := []\<rparr>)\<rparr>
             else p' = p)) \<and>
         (crop_mass_accepts mass_min mass_max ms \<and>
          filter (\<lambda>m. num_of mass_min \<le> m \<and> m \<le> num_of mass_max) (mass_list ms) = [] \<longrightarrow>
            crop_mass mass_min mass_max p
              = (Raised ValueError, p\<lparr>mass_spectrum := Some (ms\<lparr>mass_list := [], mass_spec := []\<rparr>)\<rparr>))"
proof (cases "crop_mass_accepts mass_min mass_max ms")
  case False
  have "p' = p" if "crop_mass mass_min mass_max p = (Raised ValueError, p')"
  proof (cases "mass_list ms = []")
    case True
    then show ?thesis using that assms
      by (auto simp: crop_mass_def py_min_Nil split: if_splits)
  next
    case ne: False
    define smallest where "smallest = Min (set (mass_list ms))"
    define largest where "largest = Max (set (mass_list ms))"
    have mn: "py_min (mass_list ms) = Inr smallest"
      unfolding smallest_def by (rule py_min_Min [OF ne])
    have mx: "py_max (mass_list ms) = Inr largest"
      unfolding largest_def by (rule py_max_Max [OF ne])
    have "\<not> (is_number mass_min \<and> is_number mass_max \<and> num_of mass_min < num_of mass_max \<and>
             smallest \<le> num_of mass_min \<and> num_of mass_max \<le> largest)"
      using False ne unfolding crop_mass_accepts_def smallest_def largest_def by blast
    then show ?thesis using that assms
      by (auto simp: crop_mass_def mn mx split: if_splits)
  qed
  then show ?thesis using False by (simp only: if_False simp_thms) blast
next
  case True
  then have ne: "mass_list ms \<noteq> []" by (simp add: crop_mass_accepts_def)
  let ?kept = "filter (\<lambda>m. num_of mass_min \<le> m \<and> m \<le> num_of mass_max) (mass_list ms)"
  let ?emptied = "p\<lparr>mass_spectrum := Some (ms\<lparr>mass_list := [], mass_spec := []\<rparr>)\<rparr>"
  let ?loop = "crop_mass_loop (num_of mass_min) (num_of mass_max) (mass_list ms) (mass_spec ms) 0 ([], [])"
  have unfold: "crop_mass mass_min mass_max p =
      (case ?loop of
         Inl e \<Rightarrow> (Raised e, p)
       | Inr (new_mass_list, new_mass_spec) \<Rightarrow>
           if length new_mass_list = 0
           then (Raised ValueError,
                 p\<lparr>mass_spectrum := Some (ms\<lparr>mass_list := new_mass_list, mass_spec := new_mass_spec\<rparr>)\<rparr>)
           else make_UID
                 (p\<lparr>mass_spectrum := Some (ms\<lparr>mass_list := new_mass_list, mass_spec := new_mass_spec\<rparr>)\<rparr>))"
  proof -
    define smallest where "smallest = Min (set (mass_list ms))"
    define largest where "largest = Max (set (mass_list ms))"
    have mn: "py_min (mass_list ms) = Inr smallest"
      unfolding smallest_def by (rule py_min_Min [OF ne])
    have mx: "py_max (mass_list ms) = Inr largest"
      unfolding largest_def by (rule py_max_Max [OF ne])
    have "is_number mass_min \<and> is_number mass_max \<and> num_of mass_min < num_of mass_max \<and>
          smallest \<le> num_of mass_min \<and> num_of mass_max \<le> largest"
      using True unfolding crop_mass_accepts_def smallest_def largest_def by blast
    then show ?thesis using assms
      by (simp add: crop_mass_def mn mx Let_def split: sum.splits prod.splits)
  qed
  have fwd: "crop_mass mass_min mass_max p = (Raised ValueError, ?emptied)" if "?kept = []"
    using unfold crop_mass_loop_none [OF that, of "mass_spec ms" 0 "([], [])"] by simp
  have bwd: "?kept = [] \<and> p' = ?emptied"
    if r: "crop_mass mass_min mass_max p = (Raised ValueError, p')"
  proof (cases ?loop)
    case (Inl e)
    then have "e = ValueError" using unfold r by simp
    moreover have "e = IndexError" using Inl
    proof -
      have "\<And>ii acc. crop_mass_loop (num_of mass_min) (num_of mass_max) masses (mass_spec ms) ii acc = Inl e
              \<Longrightarrow> e = IndexError" for masses
        by (induction masses) (case_tac acc; auto split: if_splits)+
      then show ?thesis using Inl by blast
    qed
    ultimately show ?thesis by simp
  next
    case (Inr lists)
    obtain nl ns where lists: "lists = (nl, ns)" by (cases lists)
    have res: "nl = ?kept \<and> length nl = length ns"
      using crop_mass_loop_result [of "num_of mass_min" "num_of mass_max" "mass_list ms"
          "mass_spec ms" 0 "[]" "[]" nl ns] Inr lists by auto
    show ?thesis
    proof (cases "nl = []")
      case True
      then have "ns = []" using res by auto
      then show ?thesis using True res unfold r Inr lists by auto
    next
      case False
      then have "crop_mass mass_min mass_max p =
          make_UID (p\<lparr>mass_spectrum := Some (ms\<lparr>mass_list := nl, mass_spec := ns\<rparr>)\<rparr>)"
        using unfold Inr lists by simp
      then have "fst (make_UID (p\<lparr>mass_spectrum := Some (ms\<lparr>mass_list := nl, mass_spec := ns\<rparr>)\<rparr>))
                 = Raised ValueError" using r by (metis fst_conv)
      then show ?thesis
        using make_UID_no_ValueError
          [of "p\<lparr>mass_spectrum := Some (ms\<lparr>mass_list := nl, mass_spec := ns\<rparr>)\<rparr>"]
        by simp
    qed
  qed
  show ?thesis
  proof (intro conjI impI)
    assume r: "crop_mass mass_min mass_max p = (Raised ValueError, p')"
    show "UID p' = UID p" using bwd [OF r] by simp
    show "if crop_mass_accepts mass_min mass_max ms
          then ?kept = [] \<and> p' = ?emptied else p' = p"
      using bwd [OF r] True by (simp only: if_True simp_thms)
  next
    assume "crop_mass_accepts mass_min mass_max ms \<and> ?kept = []"
    then show "crop_mass mass_min mass_max p = (Raised ValueError, ?emptied)"
      using fwd by blast
  qed
qed

theorem crop_mass_value_error_witness:
  "mass_spectrum scenario_peak = Some scenario_spectrum \<and>
   crop_mass_accepts (PyInt 52) (PyInt 58) scenario_spectrum \<and>
   filter (\<lambda>m. num_of (PyInt 52) \<le> m \<and> m \<le> num_of (PyInt 58)) (mass_list scenario_spectrum) = [] \<and>
   crop_mass (PyInt 52) (PyInt 58) scenario_peak
     = (Raised ValueError,
        scenario_peak\<lparr>mass_spectrum :=
          Some (scenario_spectrum\<lparr>mass_list := [], mass_spec := []\<rparr>)\<rparr>) \<and>
   UID (scenario_peak\<lparr>mass_spectrum :=
          Some (scenario_spectrum\<lparr>mass_list := [], mass_spec := []\<rparr>)\<rparr>) = UID scenario_peak"
proof -
  have a: "mass_spectrum scenario_peak = Some scenario_spectrum"
    by (simp add: scenario_peak_def)
  have b: "crop_mass_accepts (PyInt 52) (PyInt 58) scenario_spectrum"
    by (simp add: crop_mass_accepts_def scenario_spectrum_def)
  have c: "filter (\<lambda>m. num_of (PyInt 52) \<le> m \<and> m \<le> num_of (PyInt 58))
             (mass_list scenario_spectrum) = []"
    by (simp add: scenario_spectrum_def)
  note t = crop_mass_value_error [OF a, of "PyInt 52" "PyInt 58"
      "scenario_peak\<lparr>mass_spectrum :=
         Some (scenario_spectrum\<lparr>mass_list := [], mass_spec := []\<rparr>)\<rparr>"]
  have f: "crop_mass (PyInt 52) (PyInt 58) scenario_peak
     = (Raised ValueError,
        scenario_peak\<lparr>mass_spectrum :=
          Some (scenario_spectrum\<lparr>mass_list := [], mass_spec := []\<rparr>)\<rparr>)"
    using t [THEN conjunct2] b c by blast
  have g: "UID (scenario_peak\<lparr>mass_spectrum :=
          Some (scenario_spectrum\<lparr>mass_list := [], mass_spec := []\<rparr>)\<rparr>) = UID scenario_peak"
    using t [THEN conjunct1] f by blast
  show ?thesis using a b c f g by blast
qed

subsection \<open>Nulling: the entry that is zeroed\<close>

text \<open>The differences of the scan are rounded: on the masses \<open>0\<close>, \<open>2\<^sup>-\<^sup>6\<^sup>0\<close> and
  \<open>2\<close> with the target \<open>1\<close> the three computed distances are all \<open>1\<close>, and the
  scan stays on entry 0.\<close>

lemma null_mass_scan_rounds:
  "null_mass_scan 1 [0, 1 / 2 ^ 60, 2] 0 (2, 0) = (1, 0)"
  by code_simp

text \<open>C8: the constructor accepts the spectrum with the masses \<open>-1\<close> and \<open>0\<close>; the
  target 0 is within their range and is itself the mass of entry 1, at distance 0. The
  scan of \<^verbatim>\<open>null_mass(0)\<close> starts from \<^verbatim>\<open>best = max(mass_list) = 0\<close>, no distance
  is below it, the index stays 0, and the call zeroes the intensity of mass \<open>-1\<close>,
  leaving the intensity 5 of mass 0 as it was.\<close>

theorem null_mass_negative_masses:
  "Peak_init (PyFloat 1) (PyMS \<lparr>mass_list = [- 1, 0], mass_spec = [1, 5]\<rparr>) False False
     = Inr negative_mass_peak \<and>
   Min (set [- 1, 0 :: rat]) \<le> num_of (PyInt 0) \<and> num_of (PyInt 0) \<le> Max (set [- 1, 0 :: rat]) \<and>
   null_mass (PyInt 0) negative_mass_peak
     = (Returned,
        negative_mass_peak\<lparr>mass_spectrum := Some \<lparr>mass_list = [- 1, 0], mass_spec = [0, 5]\<rparr>,
                            UID := ''0--1-0-1.00''\<rparr>)"
proof -
  have a: "Peak_init (PyFloat 1) (PyMS \<lparr>mass_list = [- 1, 0], mass_spec = [1, 5]\<rparr>) False False
     = Inr negative_mass_peak"
    by (simp add: peak_eval example_defs)
  have b: "Min (set [- 1, 0 :: rat]) \<le> num_of (PyInt 0)"
    "num_of (PyInt 0) \<le> Max (set [- 1, 0 :: rat])"
    by simp_all
  have c: "null_mass (PyInt 0) negative_mass_peak
     = (Returned,
        negative_mass_peak\<lparr>mass_spectrum := Some \<lparr>mass_list = [- 1, 0], mass_spec = [0, 5]\<rparr>,
                            UID := ''0--1-0-1.00''\<rparr>)"
    by (simp add: peak_eval example_defs)
  show ?thesis by (intro conjI; (rule a b c))
qed

end
